theory Spec2Isabelle
  imports Complex_Main
begin

section \<open>JavaScript strings\<close>

text \<open>
  A JavaScript string is a sequence of UTF-16 code units. The model keeps the code units
  below 256 (ASCII and Latin-1), one \<^typ>\<open>char\<close> each, so that \<open>slice\<close>, \<open>trimEnd\<close> and
  the regular expression count and compare what the source counts and compares.
\<close>

definition is_space :: "char \<Rightarrow> bool" where
  \<comment> \<open>WhiteSpace and LineTerminator of ECMAScript among the code units below 256:
      TAB, LF, VT, FF, CR, SP and NBSP.\<close>
  "is_space c =
     (c = CHR 0x09 \<or> c = CHR 0x0A \<or> c = CHR 0x0B \<or> c = CHR 0x0C \<or>
      c = CHR 0x0D \<or> c = CHR 0x20 \<or> c = CHR 0xA0)"

definition trimEnd :: "string \<Rightarrow> string" where
  \<comment> \<open>\<open>String.prototype.trimEnd\<close>\<close>
  "trimEnd s = rev (dropWhile is_space (rev s))"

definition trim :: "string \<Rightarrow> string" where
  \<comment> \<open>\<open>String.prototype.trim\<close>\<close>
  "trim s = dropWhile is_space (trimEnd s)"

definition endsWith :: "string \<Rightarrow> char \<Rightarrow> bool" where
  \<comment> \<open>\<open>s.endsWith(c)\<close> for a one-character search string\<close>
  "endsWith s c = (s \<noteq> [] \<and> last s = c)"

definition where_at :: "string \<Rightarrow> bool" where
  \<comment> \<open>\<open>/where/i\<close> matches at the first position. Without the \<open>u\<close> flag a pattern letter
      matches its two ASCII cases and nothing else.\<close>
  "where_at s =
     (case s of
        w # h # e # r # e' # _ \<Rightarrow>
          (w = CHR ''w'' \<or> w = CHR ''W'') \<and> (h = CHR ''h'' \<or> h = CHR ''H'') \<and>
          (e = CHR ''e'' \<or> e = CHR ''E'') \<and> (r = CHR ''r'' \<or> r = CHR ''R'') \<and>
          (e' = CHR ''e'' \<or> e' = CHR ''E'')
      | _ \<Rightarrow> False)"

fun where_test :: "string \<Rightarrow> bool" where
  \<comment> \<open>\<open>/where/i.test(s)\<close>: the pattern matches at some position\<close>
  "where_test [] = False"
| "where_test (c # cs) = (where_at (c # cs) \<or> where_test cs)"

section \<open>The statement composer\<close>

text \<open>
  \<^verbatim>\<open>function combine(existing: string, filter: string | undefined): string\<close>.
  \<open>!filter\<close> holds for \<open>undefined\<close> and for the empty string; \<open>existing.slice(0, -1)\<close>
  drops the last code unit and \<open>filter.slice(6)\<close> the first six.
\<close>

definition splice :: "string \<Rightarrow> string \<Rightarrow> string" where
  \<comment> \<open>the body of \<open>combine\<close> below its guard, for the fragment already cut to \<open>sansWhere\<close>\<close>
  "splice existing sansWhere =
     (let existing1 = trimEnd existing;
          existing2 = (if endsWith existing1 CHR '';'' then butlast existing1 else existing1)
      in if where_test existing2 then existing2 @ ''\<newline>AND '' @ sansWhere
         else existing2 @ ''\<newline>WHERE '' @ sansWhere)"

definition combine :: "string \<Rightarrow> string option \<Rightarrow> string" where
  "combine existing filter' =
     (case filter' of
        None \<Rightarrow> existing
      | Some f \<Rightarrow> if f = [] then existing else splice existing (drop 6 f))"

section \<open>JSON values and errors\<close>

text \<open>
  What \<open>JSON.parse\<close> returns and \<open>JSON.stringify\<close> takes. An object lists each key once, as
  a JavaScript object does. Numbers are the integers; \<open>undefined\<close> is \<open>None\<close> of
  \<^typ>\<open>'a option\<close>.
\<close>

datatype json =
    JNull
  | JBool bool
  | JNum int
  | JStr string
  | JArr "json list"
  | JObj "(string \<times> json) list"

datatype error =
    Error string        \<comment> \<open>\<open>new Error(message)\<close>\<close>
  | TypeError string    \<comment> \<open>raised by the runtime; the text stands for the engine's own wording\<close>
  | Other string string \<comment> \<open>any other exception of a collaborator: its name and message\<close>

fun message :: "error \<Rightarrow> string" where
  "message (Error m) = m"
| "message (TypeError m) = m"
| "message (Other n m) = m"

fun truthy :: "json \<Rightarrow> bool" where
  "truthy JNull = False"
| "truthy (JBool b) = b"
| "truthy (JNum n) = (n \<noteq> 0)"
| "truthy (JStr s) = (s \<noteq> [])"
| "truthy (JArr xs) = True"
| "truthy (JObj kvs) = True"

fun field :: "string \<Rightarrow> json option \<Rightarrow> json option" where
  \<comment> \<open>\<open>v?.k\<close> by the members of the value itself, for the keys the store reads
      (\<open>message\<close>, \<open>result\<close>, \<open>query\<close>): a member of an object, and \<open>undefined\<close> on
      anything else\<close>
  "field k (Some (JObj kvs)) = map_of kvs k"
| "field k _ = None"

fun code_in :: "json \<Rightarrow> error + bool" where
  \<comment> \<open>\<open>"code" in v\<close>: a TypeError unless \<open>v\<close> is an object or an array\<close>
  "code_in (JObj kvs) = Inr (map_of kvs ''code'' \<noteq> None)"
| "code_in (JArr xs) = Inr False"
| "code_in v = Inl (TypeError ''right-hand side of in is not an object'')"

definition stringify :: "(string \<times> json option) list \<Rightarrow> json" where
  \<comment> \<open>\<open>JSON.stringify\<close> of an object literal, up to the text encoding: a member that is
      \<open>undefined\<close> is left out\<close>
  "stringify members = JObj (List.map_filter (\<lambda>(k, v). map_option (Pair k) v) members)"

fun decimal :: "nat \<Rightarrow> string" where
  \<comment> \<open>a number inside a template literal\<close>
  "decimal n =
     (if n < 10 then [char_of (48 + n)]
      else decimal (n div 10) @ [char_of (48 + n mod 10)])"

declare decimal.simps [simp del]

section \<open>The data model\<close>

datatype TableType = BASE_TABLE | VIEW

record TableColumn =
  type' :: string
  column :: string
  nullable :: bool
  length' :: "string option"

record Table =
  table :: string
  table_type :: TableType
  columns :: "TableColumn list"

record DatabaseSchema =
  schema_name :: string
  tables :: "Table list"

datatype PGlite = PGlite string
  \<comment> \<open>a live engine handle, \<open>new PGlite(postgreIDBConnection(name))\<close>: the model keeps the
      name of the database whose storage it was opened on\<close>

record Connection =
  c_name :: string
  postgres :: PGlite

record Results =
  \<comment> \<open>one result set of the engine's \<open>exec\<close>\<close>
  rows :: "json list"
  r_affectedRows :: "nat option"

record QueryResult =
  affectedRows :: nat
  totalRecords :: "nat option"

record QueryHistory =
  error :: "string option"
  statement :: string
  statementWithFilter :: "string option"
  h_createdAt :: "string option"
  executionTime :: "real option"
  results :: "QueryResult list option"

record Database =
  name :: string
  createdAt :: "string option"
  description :: "string option"
  history :: "QueryHistory list"
  schema :: "DatabaseSchema list"
  erd :: string
  query :: "string option"
  rego :: "string option"
  input :: "json option"
  data :: "json option"
  evaluated :: "json option"
  filter' :: "json option"
  datagrid :: "json list option"

record Inherited =
  \<comment> \<open>what calls of the store have written onto \<open>Object.prototype\<close>: the members a recipe
      assigns, each absent until it is written\<close>
  w_description :: "string option"
  w_createdAt :: "string option"
  w_erd :: "string option"
  w_schema :: "DatabaseSchema list option"
  w_rego :: "string option"
  w_evaluated :: "json option"
  w_filter :: "json option"
  w_query :: "string option"
  w_datagrid :: "json list option"

record State =
  \<comment> \<open>\<open>active\<close> and \<open>databases\<close> are the store; \<open>prototype\<close> is the part of the page
      outside it that \<open>databases[name]\<close> can reach\<close>
  active :: "Connection option"
  databases :: "string \<rightharpoonup> Database"
  prototype :: Inherited

record Response =
  \<comment> \<open>what \<open>fetch\<close> resolves to: \<open>resp.ok\<close>, \<open>resp.statusText\<close> and the outcome of
      \<open>resp.json()\<close>\<close>
  ok :: bool
  statusText :: string
  resp_json :: "error + json"

text \<open>
  The collaborators of one call: the clock, the random source, the engine, the schema
  introspector, the sample catalogue, the grid transformer, the network and the runtime's
  string conversion. A collaborator that rejects or throws returns \<open>Inl\<close>.
\<close>

record env =
  now :: string
    \<comment> \<open>\<open>new Date().toLocaleString()\<close>\<close>
  perf_start :: real
    \<comment> \<open>\<open>performance.now()\<close> when \<open>execute\<close> starts\<close>
  perf_end :: real
    \<comment> \<open>\<open>performance.now()\<close> when \<open>execute\<close> writes its history entry\<close>
  random :: nat
    \<comment> \<open>\<open>Math.floor(Math.random() * 90000)\<close>\<close>
  getDatabaseSchema :: "PGlite \<Rightarrow> error + DatabaseSchema list"
  generateMermaidErd :: "PGlite \<Rightarrow> error + string"
  getSampleDatabaseQuery :: "string \<Rightarrow> error + string"
  exec :: "PGlite \<Rightarrow> string \<Rightarrow> error + Results list"
  postgresTransformer :: "Results list \<Rightarrow> json list"
  fetch :: "string \<Rightarrow> string \<Rightarrow> json \<Rightarrow> error + Response"
    \<comment> \<open>\<open>fetch(url, {method, body})\<close>\<close>
  to_string :: "json \<Rightarrow> string"
    \<comment> \<open>the runtime's conversion of a value that is not a string to a string\<close>

section \<open>Sample panes\<close>

definition defaultRego :: string where
  "defaultRego = []"

definition defaultInput :: json where
  "defaultInput = JObj []"

definition defaultSql :: string where
  "defaultSql = ''SELECT * FROM information_schema.tables''"

definition rego_samples :: "(string \<times> string) list" where
  \<open>rego_samples =
     [(''orders'', ''package conditions
import rego.v1

filter["users.name"] := input.user
filter["products.price"] := {"lte": 500} if input.budget == "low"

expanded := ucast.expand(filter)
query := ucast.as_sql(expanded, "postgres", {"users": {"$self": "u"}, "products": {"$self": "p"}})
''),
      (''schools'', ''package conditions
import rego.v1

filter["students.name"] := input.user

expanded := ucast.expand(filter)
query := ucast.as_sql(expanded, "postgres", {"students": {"$self": "s1"}})
'')]\<close>

definition inputs :: "(string \<times> json) list" where
  "inputs =
     [(''orders'', JObj [(''user'', JStr ''Emma Clark''), (''budget'', JStr ''low'')]),
      (''schools'', JObj [(''user'', JStr ''Emma Johnson'')])]"

definition sql :: "(string \<times> string) list" where
  \<open>sql =
     [(''orders'', ''select u.name as user, p.name as product, p.price
from orders o
inner join users u on o.user_id = u.id
inner join order_items i on o.order_id = i.order_id
inner join products p on i.product_id = p.product_id
''),
      (''schools'', ''SELECT DISTINCT s2.*
FROM student_subjects ss1
NATURAL JOIN students s1
JOIN student_subjects ss2 ON ss1.subject_id = ss2.subject_id
JOIN students s2 ON ss2.student_id = s2.student_id
'')]\<close>

section \<open>The store\<close>

text \<open>
  \<open>useDBStore\<close> is a zustand store behind the immer middleware. An operation is a function
  from the state before the call to what the call settles with (\<open>Inl\<close> the exception it
  rejects with) and the state after it. The operations run one at a time.

  \<open>databases\<close> is a plain JavaScript object, so \<open>databases[name]\<close> is more than a look-up
  in a map. It yields the entry stored under the name when there is one. When there is
  none it yields what the object inherits under the name: one of the methods of
  \<open>Object.prototype\<close>, \<open>Object.prototype\<close> itself under \<open>__proto__\<close>, or a value that an
  earlier call has written onto \<open>Object.prototype\<close>; and \<open>undefined\<close> when nothing is
  inherited either. The immer draft reads inherited members as the plain object does and
  hands them out as they are. The store is a module, hence strict code: an assignment to a
  member of a string, a number or a boolean throws.
\<close>

datatype target =
    Own Database
      \<comment> \<open>an entry of \<open>databases\<close>\<close>
  | JsonObject "(string \<times> json) list"
      \<comment> \<open>an object that came out of \<open>JSON.parse\<close>, with its members\<close>
  | Opaque
      \<comment> \<open>a function or an array: it takes any member written onto it and has none of
          those the store reads\<close>
  | ObjectPrototype
      \<comment> \<open>\<open>Object.prototype\<close> itself\<close>
  | Primitive bool
      \<comment> \<open>a string, a number or a boolean, with its truth value\<close>
  | Nullish
      \<comment> \<open>\<open>undefined\<close> or \<open>null\<close>\<close>

fun json_target :: "json \<Rightarrow> target" where
  "json_target JNull = Nullish"
| "json_target (JBool b) = Primitive b"
| "json_target (JNum n) = Primitive (n \<noteq> 0)"
| "json_target (JStr s) = Primitive (s \<noteq> [])"
| "json_target (JArr xs) = Opaque"
| "json_target (JObj kvs) = JsonObject kvs"

definition string_target :: "string option \<Rightarrow> target" where
  "string_target v = (case v of None \<Rightarrow> Nullish | Some s \<Rightarrow> Primitive (s \<noteq> []))"

definition array_target :: "'a list option \<Rightarrow> target" where
  "array_target v = (case v of None \<Rightarrow> Nullish | Some xs \<Rightarrow> Opaque)"

definition object_methods :: "string list" where
  \<comment> \<open>the function-valued members of \<open>Object.prototype\<close> in a browser\<close>
  "object_methods =
     [''constructor'', ''hasOwnProperty'', ''isPrototypeOf'', ''propertyIsEnumerable'',
      ''toLocaleString'', ''toString'', ''valueOf'', ''__defineGetter__'',
      ''__defineSetter__'', ''__lookupGetter__'', ''__lookupSetter__'']"

definition inherited :: "Inherited \<Rightarrow> string \<Rightarrow> target" where
  \<comment> \<open>what an object without a member of its own has under the name\<close>
  "inherited p nm =
     (if nm = ''description'' then string_target (w_description p)
      else if nm = ''createdAt'' then string_target (w_createdAt p)
      else if nm = ''erd'' then string_target (w_erd p)
      else if nm = ''schema'' then array_target (w_schema p)
      else if nm = ''rego'' then string_target (w_rego p)
      else if nm = ''evaluated'' then (case w_evaluated p of None \<Rightarrow> Nullish | Some j \<Rightarrow> json_target j)
      else if nm = ''filter'' then (case w_filter p of None \<Rightarrow> Nullish | Some j \<Rightarrow> json_target j)
      else if nm = ''query'' then string_target (w_query p)
      else if nm = ''datagrid'' then array_target (w_datagrid p)
      else if nm = ''__proto__'' then ObjectPrototype
      else if nm \<in> set object_methods then Opaque
      else Nullish)"

definition lookup :: "State \<Rightarrow> string \<Rightarrow> target" where
  \<comment> \<open>\<open>databases[name]\<close>, on the state and on its draft\<close>
  "lookup s nm =
     (case databases s nm of Some d \<Rightarrow> Own d | None \<Rightarrow> inherited (prototype s) nm)"

fun truthy_target :: "target \<Rightarrow> bool" where
  "truthy_target (Primitive b) = b"
| "truthy_target Nullish = False"
| "truthy_target t = True"

text \<open>
  The recipes assign to members of \<open>state.databases[name]\<close>, one statement each. On an entry
  the assignment changes the draft; on \<open>Object.prototype\<close> it changes what every object
  inherits, at once and whatever becomes of the draft; on a function, an array or a parsed
  object it writes a member that nothing in the store reads; on a primitive value, on
  \<open>undefined\<close> and on \<open>null\<close> it throws.
\<close>

datatype assignment =
    Set_description "string option"
  | Set_createdAt string
  | Set_erd string
  | Set_schema "DatabaseSchema list"
  | Set_rego string
  | Set_evaluated "json option"
  | Set_filter "json option"
  | Set_query string
  | Set_datagrid "json list"

fun assign :: "assignment \<Rightarrow> Database \<Rightarrow> Database" where
  \<comment> \<open>on an entry\<close>
  "assign (Set_description v) d = d\<lparr>description := v\<rparr>"
| "assign (Set_createdAt v) d = d\<lparr>createdAt := Some v\<rparr>"
| "assign (Set_erd v) d = d\<lparr>erd := v\<rparr>"
| "assign (Set_schema v) d = d\<lparr>schema := v\<rparr>"
| "assign (Set_rego v) d = d\<lparr>rego := Some v\<rparr>"
| "assign (Set_evaluated v) d = d\<lparr>evaluated := v\<rparr>"
| "assign (Set_filter v) d = d\<lparr>filter' := v\<rparr>"
| "assign (Set_query v) d = d\<lparr>query := Some v\<rparr>"
| "assign (Set_datagrid v) d = d\<lparr>datagrid := Some v\<rparr>"

fun write_on :: "assignment \<Rightarrow> Inherited \<Rightarrow> Inherited" where
  \<comment> \<open>on \<open>Object.prototype\<close>; a member that holds \<open>undefined\<close> reads as one that is not
      there\<close>
  "write_on (Set_description v) p = p\<lparr>w_description := v\<rparr>"
| "write_on (Set_createdAt v) p = p\<lparr>w_createdAt := Some v\<rparr>"
| "write_on (Set_erd v) p = p\<lparr>w_erd := Some v\<rparr>"
| "write_on (Set_schema v) p = p\<lparr>w_schema := Some v\<rparr>"
| "write_on (Set_rego v) p = p\<lparr>w_rego := Some v\<rparr>"
| "write_on (Set_evaluated v) p = p\<lparr>w_evaluated := v\<rparr>"
| "write_on (Set_filter v) p = p\<lparr>w_filter := v\<rparr>"
| "write_on (Set_query v) p = p\<lparr>w_query := Some v\<rparr>"
| "write_on (Set_datagrid v) p = p\<lparr>w_datagrid := Some v\<rparr>"

definition assign_members :: "string \<Rightarrow> assignment list \<Rightarrow> State \<Rightarrow> error + State" where
  \<comment> \<open>the statements \<open>state.databases[name].member = value\<close> of a recipe, in their order;
      every recipe has at least one\<close>
  "assign_members nm asg s =
     (case lookup s nm of
        Own d \<Rightarrow> Inr (s\<lparr>databases := (databases s)(nm \<mapsto> foldl (\<lambda>d' a. assign a d') d asg)\<rparr>)
      | ObjectPrototype \<Rightarrow> Inr (s\<lparr>prototype := foldl (\<lambda>p a. write_on a p) (prototype s) asg\<rparr>)
      | JsonObject kvs \<Rightarrow> Inr s
      | Opaque \<Rightarrow> Inr s
      | Primitive b \<Rightarrow> Inl (TypeError ''cannot create a member on a primitive value'')
      | Nullish \<Rightarrow> Inl (TypeError ''cannot access a member of undefined''))"

definition push_history :: "string \<Rightarrow> QueryHistory \<Rightarrow> State \<Rightarrow> error + State" where
  \<comment> \<open>\<open>state.databases[name].history.push(entry)\<close>: \<open>history\<close> is an array on an entry, and
      on a parsed object that has an array under that name; anywhere else there is
      nothing to call \<open>push\<close> on\<close>
  "push_history nm entry s =
     (case lookup s nm of
        Own d \<Rightarrow> Inr (s\<lparr>databases := (databases s)(nm \<mapsto> d\<lparr>history := history d @ [entry]\<rparr>)\<rparr>)
      | JsonObject kvs \<Rightarrow>
          (case map_of kvs ''history'' of
             Some (JArr xs) \<Rightarrow> Inr s
           | _ \<Rightarrow> Inl (TypeError ''cannot call push''))
      | _ \<Rightarrow> Inl (TypeError ''cannot access a member of undefined''))"

definition read_input_data :: "target \<Rightarrow> error + json option \<times> json option" where
  \<comment> \<open>\<open>const { input, data } = get().databases[connection.name]\<close>\<close>
  "read_input_data t =
     (case t of
        Own d \<Rightarrow> Inr (input d, data d)
      | JsonObject kvs \<Rightarrow> Inr (map_of kvs ''input'', map_of kvs ''data'')
      | Nullish \<Rightarrow> Inl (TypeError ''cannot access a member of undefined'')
      | _ \<Rightarrow> Inr (None, None))"

definition query_of :: "Inherited \<Rightarrow> json option \<Rightarrow> json option" where
  \<comment> \<open>\<open>v?.query\<close>: the member of the object itself, else the \<open>query\<close> that every value
      inherits once a call has written one onto \<open>Object.prototype\<close>\<close>
  "query_of p v =
     (case v of
        None \<Rightarrow> None
      | Some JNull \<Rightarrow> None
      | Some (JObj kvs) \<Rightarrow>
          (case map_of kvs ''query'' of
             Some x \<Rightarrow> Some x
           | None \<Rightarrow> map_option JStr (w_query p))
      | Some j \<Rightarrow> map_option JStr (w_query p))"

text \<open>
  \<open>set(recipe)\<close> runs the recipe on a draft. When the recipe throws, the draft is dropped
  and the exception reaches the caller of \<open>set\<close>: the store is as it was, and what the
  recipe had written onto \<open>Object.prototype\<close> before it threw stays written. A recipe
  returns the state it ends in, or the exception with the state it threw in.
\<close>

type_synonym recipe = "State \<Rightarrow> (error \<times> State) + State"

definition step :: "(State \<Rightarrow> error + State) \<Rightarrow> recipe" where
  "step f s = (case f s of Inl e \<Rightarrow> Inl (e, s) | Inr s' \<Rightarrow> Inr s')"

definition and_then :: "recipe \<Rightarrow> recipe \<Rightarrow> recipe" where
  "and_then r1 r2 s = (case r1 s of Inl x \<Rightarrow> Inl x | Inr s' \<Rightarrow> r2 s')"

definition set_store :: "recipe \<Rightarrow> State \<Rightarrow> (error + unit) \<times> State" where
  "set_store r s =
     (case r s of
        Inl (e, s') \<Rightarrow> (Inl e, s\<lparr>prototype := prototype s'\<rparr>)
      | Inr s' \<Rightarrow> (Inr (), s'))"

definition no_writes :: Inherited where
  "no_writes =
     \<lparr>w_description = None, w_createdAt = None, w_erd = None, w_schema = None,
      w_rego = None, w_evaluated = None, w_filter = None, w_query = None,
      w_datagrid = None\<rparr>"

definition initial_state :: State where
  "initial_state = \<lparr>active = None, databases = Map.empty, prototype = no_writes\<rparr>"

definition assign_active :: "Connection option \<Rightarrow> assignment list \<Rightarrow> State \<Rightarrow> error + State" where
  \<comment> \<open>the same through \<open>connection.name\<close>, where \<open>connection = get().active!\<close> may be
      \<open>undefined\<close>: the \<open>!\<close> checks nothing at run time\<close>
  "assign_active connection asg s =
     (case connection of
        None \<Rightarrow> Inl (TypeError ''cannot access a member of undefined'')
      | Some c \<Rightarrow> assign_members (c_name c) asg s)"

definition push_active :: "Connection option \<Rightarrow> QueryHistory \<Rightarrow> State \<Rightarrow> error + State" where
  "push_active connection entry s =
     (case connection of
        None \<Rightarrow> Inl (TypeError ''cannot access a member of undefined'')
      | Some c \<Rightarrow> push_history (c_name c) entry s)"

definition create :: "env \<Rightarrow> string \<Rightarrow> string option \<Rightarrow> State \<Rightarrow> (error + unit) \<times> State" where
  \<comment> \<open>\<open>descr\<close> is what \<open>data.description\<close> yields\<close>
  "create env nm descr s =
     (if truthy_target (lookup s nm)
      then (Inl (Error (''db with name: '' @ nm @ '' already exists'')), s)
      else
        let pg = PGlite nm in
        case getDatabaseSchema env pg of
          Inl e \<Rightarrow> (Inl e, s)
        | Inr schema0 \<Rightarrow>
            (case generateMermaidErd env pg of
               Inl e \<Rightarrow> (Inl e, s)
             | Inr erd0 \<Rightarrow>
                 set_store (step (\<lambda>state. Inr (state
                   \<lparr>active := Some \<lparr>c_name = nm, postgres = pg\<rparr>,
                    databases := (databases state)(nm \<mapsto>
                      \<lparr>name = nm,
                       createdAt = Some (now env),
                       description = descr,
                       history = [],
                       schema = schema0,
                       erd = erd0,
                       query = Some ''SELECT * FROM information_schema.tables'',
                       rego = Some defaultRego,
                       input = Some defaultInput,
                       data = None,
                       evaluated = None,
                       filter' = None,
                       datagrid = None\<rparr>)\<rparr>))) s))"

definition update :: "env \<Rightarrow> string \<Rightarrow> string option \<Rightarrow> State \<Rightarrow> (error + unit) \<times> State" where
  "update env nm descr s =
     set_store (step (assign_members nm [Set_description descr, Set_createdAt (now env)])) s"

definition or_default :: "'a option \<Rightarrow> ('a \<Rightarrow> bool) \<Rightarrow> 'a \<Rightarrow> 'a" where
  \<comment> \<open>\<open>table[key] || default\<close>, with the test that tells a falsy entry\<close>
  "or_default entry falsy dflt =
     (case entry of None \<Rightarrow> dflt | Some v \<Rightarrow> if falsy v then dflt else v)"

definition import' :: "env \<Rightarrow> string \<Rightarrow> string option \<Rightarrow> State \<Rightarrow> (error + unit) \<times> State" where
  \<comment> \<open>\<open>key\<close> is a \<open>SampleDatakey\<close>, the name of a data set of the sample catalogue\<close>
  "import' env key descr s =
     (case getSampleDatabaseQuery env key of
        Inl e \<Rightarrow> (Inl e, s)
      | Inr sqlCreateQuery \<Rightarrow>
          let nm = key @ ''-'' @ decimal (random env + 10000);
              pg = PGlite nm
          in
          case exec env pg sqlCreateQuery of
            Inl e \<Rightarrow> (Inl e, s)
          | Inr _ \<Rightarrow>
              (case getDatabaseSchema env pg of
                 Inl e \<Rightarrow> (Inl e, s)
               | Inr schema0 \<Rightarrow>
                   (case generateMermaidErd env pg of
                      Inl e \<Rightarrow> (Inl e, s)
                    | Inr erd0 \<Rightarrow>
                        let r = or_default (map_of rego_samples key) (\<lambda>t. t = []) defaultRego;
                            s0 = or_default (map_of sql key) (\<lambda>t. t = []) defaultSql;
                            i = or_default (map_of inputs key) (\<lambda>v. \<not> truthy v) defaultInput
                        in
                        set_store (step (\<lambda>state. Inr (state
                          \<lparr>active := Some \<lparr>c_name = nm, postgres = pg\<rparr>,
                           databases := (databases state)(nm \<mapsto>
                             \<lparr>name = nm,
                              createdAt = Some (now env),
                              description = descr,
                              history = [],
                              schema = schema0,
                              erd = erd0,
                              query = Some s0,
                              rego = Some r,
                              input = Some i,
                              data = None,
                              evaluated = None,
                              filter' = None,
                              datagrid = None\<rparr>)\<rparr>))) s)))"

definition remove :: "string \<Rightarrow> State \<Rightarrow> (error + unit) \<times> State" where
  \<comment> \<open>\<open>delete\<close> takes away an entry and nothing that is inherited. \<open>removeIDBItem\<close> is
      started and not awaited: it has no part in what the call settles with, nor in the
      state\<close>
  "remove nm s =
     set_store
       (step (\<lambda>state. Inr (state\<lparr>active := None, databases := (databases state)(nm := None)\<rparr>))) s"

definition connect :: "env \<Rightarrow> string \<Rightarrow> State \<Rightarrow> (error + unit) \<times> State" where
  "connect env nm s =
     (let pg = PGlite nm in
      case getDatabaseSchema env pg of
        Inl e \<Rightarrow> (Inl e, s)
      | Inr schema0 \<Rightarrow>
          (case generateMermaidErd env pg of
             Inl e \<Rightarrow> (Inl e, s)
           | Inr erd0 \<Rightarrow>
               set_store
                 (and_then
                    (step (\<lambda>state. Inr (state\<lparr>active := Some \<lparr>c_name = nm, postgres = pg\<rparr>\<rparr>)))
                    (step (assign_members nm [Set_erd erd0, Set_schema schema0]))) s))"

definition preview_request :: "json option \<Rightarrow> json option \<Rightarrow> string \<Rightarrow> (string \<times> json option) list" where
  \<comment> \<open>the object literal \<open>req\<close> of \<open>evaluate\<close>\<close>
  "preview_request input0 data0 rego0 =
     [(''input'', input0),
      (''data'', data0),
      (''rego_modules'', Some (JObj [(''main.rego'', JStr rego0)]))]"

definition error_text :: "env \<Rightarrow> json option \<Rightarrow> string" where
  \<comment> \<open>the message of \<open>new Error(v)\<close>: empty for \<open>undefined\<close>, the string itself for a
      string, the runtime's conversion for anything else\<close>
  "error_text env v =
     (case v of None \<Rightarrow> [] | Some (JStr m) \<Rightarrow> m | Some j \<Rightarrow> to_string env j)"

definition evaluate :: "env \<Rightarrow> string \<Rightarrow> State \<Rightarrow> (error + json) \<times> State" where
  "evaluate env rego0 s =
     (case active s of
        None \<Rightarrow> (Inl (TypeError ''cannot access a member of undefined''), s)
      | Some connection \<Rightarrow>
          (case read_input_data (lookup s (c_name connection)) of
             Inl e \<Rightarrow> (Inl e, s)
           | Inr (input0, data0) \<Rightarrow>
               let req = preview_request input0 data0 rego0 in
               case fetch env ''/v0/preview/conditions'' ''POST'' (stringify req) of
                 Inl e \<Rightarrow> (Inl e, s)
               | Inr resp \<Rightarrow>
                   if \<not> ok resp then (Inl (Error (''EOPA: '' @ statusText resp)), s)
                   else
                     (case resp_json resp of
                        Inl e \<Rightarrow> (Inl e, s)
                      | Inr result \<Rightarrow>
                          (case code_in result of
                             Inl e \<Rightarrow> (Inl e, s)
                           | Inr True \<Rightarrow>
                               (Inl (Error (error_text env (field ''message'' (Some result)))), s)
                           | Inr False \<Rightarrow>
                               (case set_store
                                  (step (assign_members (c_name connection)
                                     [Set_rego rego0,
                                      Set_evaluated (field ''result'' (Some result)),
                                      Set_filter
                                        (query_of (prototype s) (field ''result'' (Some result)))])) s
                                of
                                  (Inl e, s') \<Rightarrow> (Inl e, s')
                                | (Inr _, s') \<Rightarrow> (Inr result, s'))))))"

definition eval_filter :: "env \<Rightarrow> string option \<Rightarrow> State \<Rightarrow> (error + json option) \<times> State" where
  \<comment> \<open>\<open>rego && (await get().evaluate(rego))?.result?.query\<close>: \<open>evaluate\<close> runs for a policy
      text that is neither \<open>undefined\<close> nor empty\<close>
  "eval_filter env rego0 s =
     (case rego0 of
        None \<Rightarrow> (Inr None, s)
      | Some r \<Rightarrow>
          if r = [] then (Inr (Some (JStr [])), s)
          else
            (case evaluate env r s of
               (Inl e, s') \<Rightarrow> (Inl e, s')
             | (Inr result, s') \<Rightarrow>
                 (Inr (query_of (prototype s') (field ''result'' (Some result))), s')))"

definition combine_call :: "env \<Rightarrow> string \<Rightarrow> json option \<Rightarrow> error + string" where
  \<comment> \<open>\<open>combine(query, evalFilter)\<close> for whatever the response held under \<open>query\<close>: a string
      as declared; a falsy value leaves at the guard; an array has a \<open>slice\<close> of its own and
      is converted to a string by \<open>+\<close>; any other value has no \<open>slice\<close> to call\<close>
  "combine_call env existing v =
     (case v of
        None \<Rightarrow> Inr (combine existing None)
      | Some (JStr f) \<Rightarrow> Inr (combine existing (Some f))
      | Some (JArr xs) \<Rightarrow> Inr (splice existing (to_string env (JArr (drop 6 xs))))
      | Some j \<Rightarrow>
          if truthy j then Inl (TypeError ''filter.slice is not a function'')
          else Inr existing)"

definition run_statement :: "env \<Rightarrow> Connection option \<Rightarrow> string \<Rightarrow> bool \<Rightarrow> json option \<Rightarrow> error + string \<times> Results list" where
  \<comment> \<open>the \<open>try\<close> block of \<open>execute\<close> up to \<open>exec\<close>: the statement run and its result sets,
      or what was thrown\<close>
  "run_statement env connection query0 flt evalFilter =
     (if query0 = [] \<or> trim query0 = [] then Inl (Error ''no query to run'')
      else
        case (if flt then combine_call env query0 evalFilter else Inr query0) of
          Inl e \<Rightarrow> Inl e
        | Inr query1 \<Rightarrow>
            (case connection of
               None \<Rightarrow> Inl (TypeError ''cannot access a member of undefined'')
             | Some c \<Rightarrow>
                 (case exec env (postgres c) query1 of
                    Inl e \<Rightarrow> Inl e
                  | Inr result \<Rightarrow> Inr (query1, result))))"

definition query_result :: "Results \<Rightarrow> QueryResult" where
  "query_result r =
     \<lparr>affectedRows = (case r_affectedRows r of None \<Rightarrow> 0 | Some n \<Rightarrow> n),
      totalRecords = Some (length (rows r))\<rparr>"

definition success_entry :: "env \<Rightarrow> string \<Rightarrow> string \<Rightarrow> Results list \<Rightarrow> QueryHistory" where
  "success_entry env query0 query1 result =
     \<lparr>error = None,
      statement = query0,
      statementWithFilter = Some query1,
      h_createdAt = Some (now env),
      executionTime = Some (perf_end env - perf_start env),
      results = Some (map query_result result)\<rparr>"

definition failure_entry :: "env \<Rightarrow> string \<Rightarrow> error \<Rightarrow> QueryHistory" where
  "failure_entry env query0 e =
     \<lparr>error = Some (message e),
      statement = query0,
      statementWithFilter = None,
      h_createdAt = Some (now env),
      executionTime = Some (perf_end env - perf_start env),
      results = None\<rparr>"

definition record_success :: "env \<Rightarrow> Connection option \<Rightarrow> string \<Rightarrow> string \<Rightarrow> Results list \<Rightarrow> recipe" where
  \<comment> \<open>the recipe of the \<open>try\<close> block\<close>
  "record_success env connection query0 query1 result =
     and_then
       (step (assign_active connection
          [Set_query query0, Set_datagrid (postgresTransformer env result)]))
       (step (push_active connection (success_entry env query0 query1 result)))"

definition record_failure :: "env \<Rightarrow> Connection option \<Rightarrow> string \<Rightarrow> error \<Rightarrow> recipe" where
  \<comment> \<open>the recipe of the \<open>catch\<close> block\<close>
  "record_failure env connection query0 e =
     and_then
       (step (assign_active connection [Set_query query0, Set_datagrid []]))
       (step (push_active connection (failure_entry env query0 e)))"

definition catch_block :: "env \<Rightarrow> Connection option \<Rightarrow> string \<Rightarrow> error \<Rightarrow> State \<Rightarrow> (error + Results list) \<times> State" where
  \<comment> \<open>\<open>catch (error) { set(...); throw error; }\<close>\<close>
  "catch_block env connection query0 e s =
     (case set_store (record_failure env connection query0 e) s of
        (Inl e', s') \<Rightarrow> (Inl e', s')
      | (Inr _, s') \<Rightarrow> (Inl e, s'))"

definition execute :: "env \<Rightarrow> string \<Rightarrow> string option \<Rightarrow> bool \<Rightarrow> State \<Rightarrow> (error + Results list) \<times> State" where
  "execute env query0 rego0 flt s =
     (let connection = active s in
      case eval_filter env rego0 s of
        (Inl e, s1) \<Rightarrow> (Inl e, s1)
      | (Inr evalFilter, s1) \<Rightarrow>
          (case run_statement env connection query0 flt evalFilter of
             Inl e \<Rightarrow> catch_block env connection query0 e s1
           | Inr (query1, result) \<Rightarrow>
               (case set_store (record_success env connection query0 query1 result) s1 of
                  (Inl e, s2) \<Rightarrow> catch_block env connection query0 e s2
                | (Inr _, s2) \<Rightarrow> (Inr result, s2))))"

definition reload :: "env \<Rightarrow> State \<Rightarrow> (error + unit) \<times> State" where
  "reload env s =
     (case active s of
        None \<Rightarrow> (Inl (TypeError ''cannot access a member of undefined''), s)
      | Some connection \<Rightarrow>
          (case getDatabaseSchema env (postgres connection) of
             Inl e \<Rightarrow> (Inl e, s)
           | Inr schema0 \<Rightarrow>
               (case generateMermaidErd env (postgres connection) of
                  Inl e \<Rightarrow> (Inl e, s)
                | Inr erd0 \<Rightarrow>
                    set_store
                      (step (assign_members (c_name connection)
                         [Set_erd erd0, Set_schema schema0])) s)))"

section \<open>Sequences of calls\<close>

datatype call =
    Create string "string option"
  | Import string "string option"
  | Update string "string option"
  | Remove string
  | Connect string
  | Evaluate string
  | Execute string "string option" bool
  | Reload

fun perform :: "env \<Rightarrow> call \<Rightarrow> State \<Rightarrow> State" where
  \<comment> \<open>the state a call leaves, whether it resolved or rejected\<close>
  "perform env (Create nm descr) s = snd (create env nm descr s)"
| "perform env (Import key descr) s = snd (import' env key descr s)"
| "perform env (Update nm descr) s = snd (update env nm descr s)"
| "perform env (Remove nm) s = snd (remove nm s)"
| "perform env (Connect nm) s = snd (connect env nm s)"
| "perform env (Evaluate rego0) s = snd (evaluate env rego0 s)"
| "perform env (Execute query0 rego0 flt) s = snd (execute env query0 rego0 flt s)"
| "perform env Reload s = snd (reload env s)"

fun run :: "(env \<times> call) list \<Rightarrow> State \<Rightarrow> State" where
  \<comment> \<open>calls made one after the other, each with the collaborators as they answer then\<close>
  "run [] s = s"
| "run ((env, c) # cs) s = run cs (perform env c s)"

definition active_known :: "State \<Rightarrow> bool" where
  \<comment> \<open>\<open>active\<close>, if present, names an entry of \<open>databases\<close>\<close>
  "active_known s = (case active s of None \<Rightarrow> True | Some c \<Rightarrow> databases s (c_name c) \<noteq> None)"

section \<open>Example collaborators\<close>

text \<open>A registry with one database, \<open>orders\<close>, connected and not yet queried.\<close>

definition example_database :: Database where
  "example_database =
     \<lparr>name = ''orders'',
      createdAt = None,
      description = None,
      history = [],
      schema = [],
      erd = ''erDiagram'',
      query = Some ''SELECT * FROM products'',
      rego = Some [],
      input = Some (JObj [(''user'', JStr ''Emma Clark''), (''budget'', JStr ''low'')]),
      data = None,
      evaluated = None,
      filter' = None,
      datagrid = None\<rparr>"

definition example_state :: State where
  "example_state =
     \<lparr>active = Some \<lparr>c_name = ''orders'', postgres = PGlite ''orders''\<rparr>,
      databases = [''orders'' \<mapsto> example_database],
      prototype = no_writes\<rparr>"

definition filter_response :: Response where
  \<comment> \<open>the service found a filter\<close>
  "filter_response =
     \<lparr>ok = True, statusText = ''OK'',
      resp_json = Inr (JObj [(''result'', JObj [(''query'', JStr ''WHERE products.price <= 500'')])])\<rparr>"

definition error_response :: Response where
  \<comment> \<open>the service reports an error in its body, under a success status\<close>
  "error_response =
     \<lparr>ok = True, statusText = ''OK'',
      resp_json = Inr (JObj [(''code'', JStr ''invalid''), (''message'', JStr ''bad rule'')])\<rparr>"

definition bad_request_response :: Response where
  \<comment> \<open>the same body under status 400\<close>
  "bad_request_response =
     \<lparr>ok = False, statusText = ''Bad Request'',
      resp_json = Inr (JObj [(''code'', JStr ''invalid''), (''message'', JStr ''bad rule'')])\<rparr>"

definition echo_fetch :: "string \<Rightarrow> string \<Rightarrow> json \<Rightarrow> error + Response" where
  \<comment> \<open>a service that answers with the request it received\<close>
  "echo_fetch url method body =
     Inr \<lparr>ok = True, statusText = ''OK'',
          resp_json = Inr (JObj [(''url'', JStr url), (''method'', JStr method), (''body'', body)])\<rparr>"

definition example_env :: env where
  "example_env =
     \<lparr>now = ''1/1/2025, 12:00:00 PM'',
      perf_start = 10,
      perf_end = 12,
      random = 2345,
      getDatabaseSchema = (\<lambda>pg. Inr []),
      generateMermaidErd = (\<lambda>pg. Inr ''erDiagram''),
      getSampleDatabaseQuery = (\<lambda>key. Inr ''CREATE TABLE products (price int)''),
      exec = (\<lambda>pg q. Inr [\<lparr>rows = [JObj [(''price'', JNum 5)]], r_affectedRows = None\<rparr>]),
      postgresTransformer = map (\<lambda>r. JArr (rows r)),
      fetch = (\<lambda>url method body. Inr filter_response),
      to_string = (\<lambda>v. ''[object Object]'')\<rparr>"

definition rejecting_engine :: "PGlite \<Rightarrow> string \<Rightarrow> error + Results list" where
  "rejecting_engine pg q = Inl (Error ''syntax error at end of input'')"

section \<open>The statement composer: proofs\<close>

lemma where_at_snoc:
  "where_at (s @ [z]) \<Longrightarrow> z \<noteq> CHR ''e'' \<Longrightarrow> z \<noteq> CHR ''E'' \<Longrightarrow> where_at s"
  by (auto simp: where_at_def split: list.splits)

lemma where_at_append: "where_at s \<Longrightarrow> where_at (s @ t)"
  by (auto simp: where_at_def split: list.splits)

lemma where_test_append: "where_test s \<Longrightarrow> where_test (s @ t)"
  by (induction s) (auto dest: where_at_append[where t=t])

lemma where_test_snoc:
  "where_test (s @ [z]) \<Longrightarrow> z \<noteq> CHR ''e'' \<Longrightarrow> z \<noteq> CHR ''E'' \<Longrightarrow> where_test s"
proof (induction s)
  case Nil
  then show ?case by (simp add: where_at_def)
next
  case (Cons c cs)
  then show ?case using where_at_snoc[of "c # cs" z] by auto
qed

lemma where_test_snoc_iff:
  "z \<noteq> CHR ''e'' \<Longrightarrow> z \<noteq> CHR ''E'' \<Longrightarrow> where_test (s @ [z]) = where_test s"
  using where_test_snoc where_test_append by blast

text \<open>A match ends in a letter, so neither trailing white space nor a trailing \<open>;\<close> holds one.\<close>

lemma where_test_spaces:
  "\<forall>c\<in>set ws. is_space c \<Longrightarrow> where_test (s @ ws) = where_test s"
proof (induction ws rule: rev_induct)
  case Nil
  then show ?case by simp
next
  case (snoc x xs)
  then have "is_space x" by simp
  then have "x \<noteq> CHR ''e''" "x \<noteq> CHR ''E''" by (auto simp: is_space_def)
  then have "where_test ((s @ xs) @ [x]) = where_test (s @ xs)" by (rule where_test_snoc_iff)
  with snoc show ?case by simp
qed

lemma trimEnd_decomp: "\<exists>ws. s = trimEnd s @ ws \<and> (\<forall>c\<in>set ws. is_space c)"
proof -
  have "rev s = takeWhile is_space (rev s) @ dropWhile is_space (rev s)" by simp
  then have "s = rev (dropWhile is_space (rev s)) @ rev (takeWhile is_space (rev s))"
    by (metis rev_append rev_rev_ident)
  moreover have "\<forall>c\<in>set (rev (takeWhile is_space (rev s))). is_space c"
    by (auto dest: set_takeWhileD)
  ultimately show ?thesis unfolding trimEnd_def by blast
qed

lemma trimEnd_no_trailing_space: "trimEnd s \<noteq> [] \<Longrightarrow> \<not> is_space (last (trimEnd s))"
proof -
  assume ne: "trimEnd s \<noteq> []"
  then have "dropWhile is_space (rev s) \<noteq> []" by (simp add: trimEnd_def)
  then have "\<not> is_space (hd (dropWhile is_space (rev s)))" by (rule hd_dropWhile)
  with ne show ?thesis by (simp add: trimEnd_def last_rev)
qed

lemma where_test_trimEnd: "where_test (trimEnd s) = where_test s"
proof -
  obtain ws where "s = trimEnd s @ ws" "\<forall>c\<in>set ws. is_space c"
    using trimEnd_decomp by blast
  then show ?thesis using where_test_spaces[of ws "trimEnd s"] by simp
qed

lemma where_test_butlast:
  assumes "endsWith s CHR '';''"
  shows "where_test (butlast s) = where_test s"
proof -
  from assms have "s = butlast s @ [CHR '';'']"
    by (auto simp: endsWith_def) (metis append_butlast_last_id)
  then show ?thesis using where_test_snoc_iff[of "CHR '';''" "butlast s"] by simp
qed

lemma where_test_stripped:
  "where_test (let e = trimEnd s in if endsWith e CHR '';'' then butlast e else e) = where_test s"
  by (simp add: Let_def where_test_butlast where_test_trimEnd)

lemma splice_and:
  "where_test existing \<Longrightarrow>
   splice existing t =
     (let e = trimEnd existing in if endsWith e CHR '';'' then butlast e else e) @
     ''\<newline>AND '' @ t"
  using where_test_stripped[of existing] by (simp add: splice_def Let_def)

lemma splice_where:
  "\<not> where_test existing \<Longrightarrow>
   splice existing t =
     (let e = trimEnd existing in if endsWith e CHR '';'' then butlast e else e) @
     ''\<newline>WHERE '' @ t"
  using where_test_stripped[of existing] by (simp add: splice_def Let_def)

lemmas combine_eval = combine_def splice_def trimEnd_def endsWith_def is_space_def where_at_def

text \<open>
  C6. When the statement already holds \<open>where\<close> in any mix of upper and lower case,
  \<open>combine\<close> with a fragment \<open>WHERE <condition>\<close> returns the statement, its trailing
  white space trimmed and then one trailing \<open>;\<close> dropped if there is one, followed by a
  line break, \<open>AND\<close> and the condition. The test of the source reads the statement after
  the trimming; it gives what it gives on the statement as passed. In particular
  \<open>combine("SELECT * FROM t WHERE y = 2", "WHERE x = 1")\<close> is
  \<open>"SELECT * FROM t WHERE y = 2\nAND x = 1"\<close>.
\<close>

theorem combine_existing_where:
  "(where_test existing \<longrightarrow>
      combine existing (Some (''WHERE '' @ condition)) =
        (let e = trimEnd existing in if endsWith e CHR '';'' then butlast e else e) @
        ''\<newline>AND '' @ condition) \<and>
   combine ''SELECT * FROM t WHERE y = 2'' (Some ''WHERE x = 1'') =
     ''SELECT * FROM t WHERE y = 2\<newline>AND x = 1''"
proof
  show "where_test existing \<longrightarrow>
      combine existing (Some (''WHERE '' @ condition)) =
        (let e = trimEnd existing in if endsWith e CHR '';'' then butlast e else e) @
        ''\<newline>AND '' @ condition"
    by (simp add: combine_def splice_and)
  show "combine ''SELECT * FROM t WHERE y = 2'' (Some ''WHERE x = 1'') =
     ''SELECT * FROM t WHERE y = 2\<newline>AND x = 1''"
    by (simp add: combine_eval)
qed

theorem combine_existing_where_witness:
  "where_test ''select * from t Where y = 2; '' \<and>
   combine ''select * from t Where y = 2; '' (Some ''WHERE x = 1'') =
     ''select * from t Where y = 2\<newline>AND x = 1''"
proof -
  have h: "where_test ''select * from t Where y = 2; ''" by (simp add: where_at_def)
  from h combine_existing_where[of "''select * from t Where y = 2; ''" "''x = 1''"]
  have "combine ''select * from t Where y = 2; '' (Some (''WHERE '' @ ''x = 1'')) =
      (let e = trimEnd ''select * from t Where y = 2; ''
       in if endsWith e CHR '';'' then butlast e else e) @ ''\<newline>AND '' @ ''x = 1''"
    by blast
  then show ?thesis
    by (simp add: trimEnd_def endsWith_def is_space_def where_at_def)
qed

text \<open>
  C7. When the statement holds no \<open>where\<close>, \<open>combine\<close> trims its trailing white space,
  drops one trailing \<open>;\<close> if there is one, cuts the first six characters off the fragment
  whatever they are, and returns the statement followed by a line break, \<open>WHERE\<close> and the
  rest of the fragment: the condition, for a fragment \<open>WHERE <condition>\<close>. Of two trailing
  \<open>;\<close> one stays. \<open>combine("SELECT * FROM t;", "WHERE x = 1")\<close> is
  \<open>"SELECT * FROM t\nWHERE x = 1"\<close>, and a fragment that is absent or empty returns the
  statement as passed.
\<close>

theorem combine_no_where:
  "(\<not> where_test existing \<longrightarrow>
      combine existing (Some (''WHERE '' @ condition)) =
        (let e = trimEnd existing in if endsWith e CHR '';'' then butlast e else e) @
        ''\<newline>WHERE '' @ condition) \<and>
   (\<not> where_test existing \<and> f \<noteq> [] \<longrightarrow>
      combine existing (Some f) =
        (let e = trimEnd existing in if endsWith e CHR '';'' then butlast e else e) @
        ''\<newline>WHERE '' @ drop 6 f) \<and>
   combine ''SELECT * FROM t;'' (Some ''WHERE x = 1'') = ''SELECT * FROM t\<newline>WHERE x = 1'' \<and>
   combine ''SELECT 1;; '' (Some ''WHERE x = 1'') = ''SELECT 1;\<newline>WHERE x = 1'' \<and>
   combine existing None = existing \<and>
   combine existing (Some []) = existing"
proof (intro conjI)
  show "\<not> where_test existing \<longrightarrow>
      combine existing (Some (''WHERE '' @ condition)) =
        (let e = trimEnd existing in if endsWith e CHR '';'' then butlast e else e) @
        ''\<newline>WHERE '' @ condition"
    by (simp add: combine_def splice_where)
  show "\<not> where_test existing \<and> f \<noteq> [] \<longrightarrow>
      combine existing (Some f) =
        (let e = trimEnd existing in if endsWith e CHR '';'' then butlast e else e) @
        ''\<newline>WHERE '' @ drop 6 f"
    by (simp add: combine_def splice_where)
  show "combine ''SELECT * FROM t;'' (Some ''WHERE x = 1'') = ''SELECT * FROM t\<newline>WHERE x = 1''"
    by (simp add: combine_eval)
  show "combine ''SELECT 1;; '' (Some ''WHERE x = 1'') = ''SELECT 1;\<newline>WHERE x = 1''"
    by (simp add: combine_eval)
  show "combine existing None = existing"
    by (simp add: combine_def)
  show "combine existing (Some []) = existing"
    by (simp add: combine_def)
qed

theorem combine_no_where_witness:
  "\<not> where_test ''SELECT * FROM t ;'' \<and> ''WHERE(x = 1)'' \<noteq> [] \<and>
   combine ''SELECT * FROM t ;'' (Some ''WHERE x = 1'') = ''SELECT * FROM t \<newline>WHERE x = 1'' \<and>
   combine ''SELECT * FROM t ;'' (Some ''WHERE(x = 1)'') = ''SELECT * FROM t \<newline>WHERE x = 1)''"
proof -
  have h: "\<not> where_test ''SELECT * FROM t ;''" by (simp add: where_at_def)
  from h combine_no_where[of "''SELECT * FROM t ;''" "''x = 1''" "''WHERE(x = 1)''"]
  have "combine ''SELECT * FROM t ;'' (Some (''WHERE '' @ ''x = 1'')) =
      (let e = trimEnd ''SELECT * FROM t ;''
       in if endsWith e CHR '';'' then butlast e else e) @ ''\<newline>WHERE '' @ ''x = 1''"
    and "combine ''SELECT * FROM t ;'' (Some ''WHERE(x = 1)'') =
      (let e = trimEnd ''SELECT * FROM t ;''
       in if endsWith e CHR '';'' then butlast e else e) @ ''\<newline>WHERE '' @ drop 6 ''WHERE(x = 1)''"
    by blast+
  then show ?thesis
    by (simp add: trimEnd_def endsWith_def is_space_def where_at_def)
qed

section \<open>The store: proofs\<close>

lemma lookup_own: "databases s nm = Some d \<Longrightarrow> lookup s nm = Own d"
  by (simp add: lookup_def)

lemma assign_history: "history (assign a d) = history d"
  by (cases a) simp_all

lemma foldl_assign_history: "history (foldl (\<lambda>d' a. assign a d') d asg) = history d"
  by (induction asg arbitrary: d) (simp_all add: assign_history)

lemma assign_members_own:
  "databases s nm = Some d \<Longrightarrow>
   assign_members nm asg s =
     Inr (s\<lparr>databases := (databases s)(nm \<mapsto> foldl (\<lambda>d' a. assign a d') d asg)\<rparr>)"
  by (simp add: assign_members_def lookup_own)

lemma assign_members_keeps:
  assumes "assign_members nm asg s = Inr s'"
  shows "active s' = active s"
    and "databases s k = Some d \<Longrightarrow> \<exists>d'. databases s' k = Some d' \<and> history d' = history d"
  using assms
  by (auto simp: assign_members_def lookup_def foldl_assign_history
      split: target.splits option.splits)

lemma set_store_step:
  "set_store (step f) s = (case f s of Inl e \<Rightarrow> (Inl e, s) | Inr s' \<Rightarrow> (Inr (), s'))"
  by (simp add: set_store_def step_def split: sum.splits)

lemma evaluate_Inl_unchanged:
  "evaluate env r s = (Inl e, s') \<Longrightarrow> s' = s"
  by (auto simp: evaluate_def set_store_step Let_def
      split: option.splits sum.splits if_splits bool.splits prod.splits)

lemma evaluate_Inr_assign:
  "evaluate env r s = (Inr body, s') \<Longrightarrow>
     \<exists>nm asg. assign_members nm asg s = Inr s'"
  by (auto simp: evaluate_def set_store_step Let_def
      split: option.splits sum.splits if_splits bool.splits prod.splits)

lemma eval_filter_Inl_unchanged:
  "eval_filter env r s = (Inl e, s') \<Longrightarrow> s' = s"
  by (auto simp: eval_filter_def split: option.splits if_splits prod.splits sum.splits
      dest: evaluate_Inl_unchanged)

lemma eval_filter_Inr_keeps:
  assumes "eval_filter env r s = (Inr f, s')"
  shows "active s' = active s"
    and "databases s nm = Some d \<Longrightarrow> \<exists>d'. databases s' nm = Some d' \<and> history d' = history d"
proof -
  have "s' = s \<or> (\<exists>nm asg. assign_members nm asg s = Inr s')"
  proof (cases r)
    case None
    with assms show ?thesis by (simp add: eval_filter_def)
  next
    case (Some p)
    show ?thesis
    proof (cases "p = []")
      case True
      with Some assms show ?thesis by (simp add: eval_filter_def)
    next
      case False
      with Some assms obtain body where "evaluate env p s = (Inr body, s')"
        by (auto simp: eval_filter_def split: prod.splits sum.splits)
      from evaluate_Inr_assign[OF this] show ?thesis by auto
    qed
  qed
  then show "active s' = active s"
    and "databases s nm = Some d \<Longrightarrow> \<exists>d'. databases s' nm = Some d' \<and> history d' = history d"
    using assign_members_keeps by blast+
qed

lemma record_failure_own:
  "databases s1 (c_name c) = Some d1 \<Longrightarrow>
   set_store (record_failure env (Some c) q e) s1 =
     (Inr (),
      s1\<lparr>databases := (databases s1)(c_name c \<mapsto>
            d1\<lparr>query := Some q, datagrid := Some [],
               history := history d1 @ [failure_entry env q e]\<rparr>)\<rparr>)"
  by (simp add: record_failure_def set_store_def and_then_def step_def assign_active_def
      push_active_def assign_members_def push_history_def lookup_def)

lemma record_success_own:
  "databases s1 (c_name c) = Some d1 \<Longrightarrow>
   set_store (record_success env (Some c) q q1 result) s1 =
     (Inr (),
      s1\<lparr>databases := (databases s1)(c_name c \<mapsto>
            d1\<lparr>query := Some q, datagrid := Some (postgresTransformer env result),
               history := history d1 @ [success_entry env q q1 result]\<rparr>)\<rparr>)"
  by (simp add: record_success_def set_store_def and_then_def step_def assign_active_def
      push_active_def assign_members_def push_history_def lookup_def)

lemma catch_block_own:
  "databases s1 (c_name c) = Some d1 \<Longrightarrow>
   catch_block env (Some c) q e s1 =
     (Inl e,
      s1\<lparr>databases := (databases s1)(c_name c \<mapsto>
            d1\<lparr>query := Some q, datagrid := Some [],
               history := history d1 @ [failure_entry env q e]\<rparr>)\<rparr>)"
  by (simp add: catch_block_def record_failure_own)

lemma execute_after_eval:
  assumes "eval_filter env r s = (Inr f, s1)" and "active s = Some c"
    and "databases s1 (c_name c) = Some d1"
  shows "execute env q r flt s =
     (case run_statement env (Some c) q flt f of
        Inl e \<Rightarrow>
          (Inl e,
           s1\<lparr>databases := (databases s1)(c_name c \<mapsto>
                 d1\<lparr>query := Some q, datagrid := Some [],
                    history := history d1 @ [failure_entry env q e]\<rparr>)\<rparr>)
      | Inr (q1, result) \<Rightarrow>
          (Inr result,
           s1\<lparr>databases := (databases s1)(c_name c \<mapsto>
                 d1\<lparr>query := Some q, datagrid := Some (postgresTransformer env result),
                    history := history d1 @ [success_entry env q q1 result]\<rparr>)\<rparr>))"
  using assms
  by (simp add: execute_def catch_block_own record_success_own split: sum.splits prod.splits)

lemma execute_eval_failed:
  "eval_filter env r s = (Inl e, s1) \<Longrightarrow> execute env q r flt s = (Inl e, s)"
  using eval_filter_Inl_unchanged[of env r s e s1] by (simp add: execute_def)

lemma run_statement_Inr:
  "run_statement env (Some c) q flt f = Inr (q1, result) \<Longrightarrow>
   exec env (postgres c) q1 = Inr result"
  by (auto simp: run_statement_def split: if_splits sum.splits)

lemmas store_eval =
  execute_def eval_filter_def evaluate_def run_statement_def combine_call_def catch_block_def
  set_store_def step_def and_then_def assign_active_def push_active_def assign_members_def
  push_history_def read_input_data_def query_of_def lookup_def inherited_def
  string_target_def array_target_def object_methods_def record_success_def
  record_failure_def success_entry_def failure_entry_def
  query_result_def preview_request_def stringify_def error_text_def List.map_filter_def
  example_env_def example_state_def example_database_def filter_response_def
  error_response_def bad_request_response_def echo_fetch_def rejecting_engine_def
  initial_state_def no_writes_def trim_def combine_eval Let_def

text \<open>
  C1, as the code has it. A call of \<open>execute\<close> with an active session whose entry is in
  \<open>databases\<close>. When it resolves, with the result sets that the engine gave for the
  statement run, the history of the active database is the one before the call with one
  entry more: the entry has no \<open>error\<close>, it names the statement as passed and as run, its
  \<open>results\<close> hold one \<open>{affectedRows, totalRecords}\<close> for each result set, in their order,
  and \<open>query\<close> and the grid of all result sets are written with it. When it rejects, one of
  two things happened. Either the evaluation step rejected: the step stands before the
  \<open>try\<close>, the exception is the caller's and the state is as before the call. Or the
  statement did not run: then the history has one entry more, with \<open>error\<close> the message of
  the exception and no \<open>results\<close>, \<open>query\<close> is written, \<open>datagrid\<close> is the empty
  sequence, and the exception the caller gets comes together with this state.
\<close>

theorem execute_history:
  assumes "active s = Some c" and "databases s (c_name c) = Some d"
    and "execute env q r flt s = (out, s')"
  shows "case out of
           Inr result \<Rightarrow>
             (\<exists>d' entry q1. databases s' (c_name c) = Some d' \<and>
                history d' = history d @ [entry] \<and>
                error entry = None \<and>
                statement entry = q \<and>
                statementWithFilter entry = Some q1 \<and>
                exec env (postgres c) q1 = Inr result \<and>
                results entry = Some (map query_result result) \<and>
                query d' = Some q \<and>
                datagrid d' = Some (postgresTransformer env result))
         | Inl e \<Rightarrow>
             (fst (eval_filter env r s) = Inl e \<and> s' = s) \<or>
             (\<exists>d' entry. databases s' (c_name c) = Some d' \<and>
                history d' = history d @ [entry] \<and>
                error entry = Some (message e) \<and>
                results entry = None \<and>
                query d' = Some q \<and>
                datagrid d' = Some [])"
proof (cases "eval_filter env r s")
  case (Pair o1 s1)
  show ?thesis
  proof (cases o1)
    case (Inl e)
    with Pair assms(3) show ?thesis using execute_eval_failed[of env r s e s1 q flt] by auto
  next
    case (Inr f)
    with Pair have ef: "eval_filter env r s = (Inr f, s1)" by simp
    from eval_filter_Inr_keeps(2)[OF ef assms(2)] obtain d1
      where d1: "databases s1 (c_name c) = Some d1" "history d1 = history d" by blast
    show ?thesis
    proof (cases "run_statement env (Some c) q flt f")
      case (Inl e)
      with execute_after_eval[OF ef assms(1) d1(1), of q flt] assms(3) d1(2)
      show ?thesis by (auto simp: failure_entry_def)
    next
      case (Inr qr)
      obtain q1 result where qr: "qr = (q1, result)" by (cases qr)
      with Inr have "exec env (postgres c) q1 = Inr result" by (simp add: run_statement_Inr)
      with Inr qr execute_after_eval[OF ef assms(1) d1(1), of q flt] assms(3) d1(2)
      show ?thesis by (auto simp: success_entry_def)
    qed
  qed
qed

theorem execute_history_witness:
  "active example_state = Some \<lparr>c_name = ''orders'', postgres = PGlite ''orders''\<rparr> \<and>
   databases example_state ''orders'' = Some example_database \<and>
   fst (execute example_env ''SELECT * FROM products'' (Some ''package conditions'') True example_state) =
     Inr [\<lparr>rows = [JObj [(''price'', JNum 5)]], r_affectedRows = None\<rparr>] \<and>
   (\<exists>d' entry.
      databases (snd (execute example_env ''SELECT * FROM products'' (Some ''package conditions'') True
        example_state)) ''orders'' = Some d' \<and>
      history d' = [entry] \<and> error entry = None \<and>
      statement entry = ''SELECT * FROM products'' \<and>
      results entry = Some [\<lparr>affectedRows = 0, totalRecords = Some 1\<rparr>] \<and>
      query d' = Some ''SELECT * FROM products'' \<and>
      datagrid d' = Some [JArr [JObj [(''price'', JNum 5)]]]) \<and>
   fst (execute (example_env\<lparr>exec := rejecting_engine\<rparr>) ''SELECT * FROM products'' None False
     example_state) = Inl (Error ''syntax error at end of input'') \<and>
   (\<exists>d' entry.
      databases (snd (execute (example_env\<lparr>exec := rejecting_engine\<rparr>) ''SELECT * FROM products''
        None False example_state)) ''orders'' = Some d' \<and>
      history d' = [entry] \<and> error entry = Some ''syntax error at end of input'' \<and>
      results entry = None \<and>
      query d' = Some ''SELECT * FROM products'' \<and>
      datagrid d' = Some [])"
proof -
  let ?c = "\<lparr>c_name = ''orders'', postgres = PGlite ''orders''\<rparr>"
  let ?ok = "execute example_env ''SELECT * FROM products'' (Some ''package conditions'') True
    example_state"
  let ?bad = "execute (example_env\<lparr>exec := rejecting_engine\<rparr>) ''SELECT * FROM products'' None
    False example_state"
  have a: "active example_state = Some ?c" by (simp add: example_state_def)
  have b: "databases example_state (c_name ?c) = Some example_database"
    by (simp add: example_state_def)
  have ok: "fst ?ok = Inr [\<lparr>rows = [JObj [(''price'', JNum 5)]], r_affectedRows = None\<rparr>]"
    by (simp add: store_eval)
  have bad: "fst ?bad = Inl (Error ''syntax error at end of input'')"
    by (simp add: store_eval)
  have ef: "fst (eval_filter (example_env\<lparr>exec := rejecting_engine\<rparr>) None example_state) = Inr None"
    by (simp add: eval_filter_def)
  have h: "history example_database = []" by (simp add: example_database_def)
  from execute_history[OF a b surjective_pairing, where env = example_env
      and q = "''SELECT * FROM products''" and r = "Some ''package conditions''" and flt = True] ok h
  have 1: "\<exists>d' entry. databases (snd ?ok) ''orders'' = Some d' \<and>
      history d' = [entry] \<and> error entry = None \<and>
      statement entry = ''SELECT * FROM products'' \<and>
      results entry = Some [\<lparr>affectedRows = 0, totalRecords = Some 1\<rparr>] \<and>
      query d' = Some ''SELECT * FROM products'' \<and>
      datagrid d' = Some [JArr [JObj [(''price'', JNum 5)]]]"
    by (auto simp: query_result_def example_env_def)
  from execute_history[OF a b surjective_pairing, where env = "example_env\<lparr>exec := rejecting_engine\<rparr>"
      and q = "''SELECT * FROM products''" and r = None and flt = False] bad ef h
  have 2: "\<exists>d' entry. databases (snd ?bad) ''orders'' = Some d' \<and>
      history d' = [entry] \<and> error entry = Some ''syntax error at end of input'' \<and>
      results entry = None \<and>
      query d' = Some ''SELECT * FROM products'' \<and>
      datagrid d' = Some []"
    by simp
  from a b ok bad 1 2 show ?thesis by simp
qed

text \<open>
  The service answers the evaluation step of \<open>execute\<close> with status 400: the call rejects
  with the status text, the history of \<open>orders\<close> is as empty as before and its \<open>datagrid\<close>
  as absent as before.
\<close>

theorem execute_evaluation_rejected:
  "active example_state = Some \<lparr>c_name = ''orders'', postgres = PGlite ''orders''\<rparr> \<and>
   fst (execute (example_env\<lparr>fetch := \<lambda>url method body. Inr bad_request_response\<rparr>)
     ''SELECT * FROM products'' (Some ''package conditions'') True example_state) =
     Inl (Error ''EOPA: Bad Request'') \<and>
   map_option history (databases (snd (execute
       (example_env\<lparr>fetch := \<lambda>url method body. Inr bad_request_response\<rparr>)
       ''SELECT * FROM products'' (Some ''package conditions'') True example_state)) ''orders'') =
     Some [] \<and>
   map_option datagrid (databases (snd (execute
       (example_env\<lparr>fetch := \<lambda>url method body. Inr bad_request_response\<rparr>)
       ''SELECT * FROM products'' (Some ''package conditions'') True example_state)) ''orders'') =
     Some None"
  by (simp add: store_eval)

text \<open>
  C2, as the code has it. A call of \<open>evaluate\<close> that rejects leaves the state as it was:
  \<open>evaluate\<close> writes no history. A call of \<open>execute\<close> whose evaluation step rejects does
  the same, the step standing before the \<open>try\<close>. A call of \<open>execute\<close> with an active
  session that rejects after its evaluation step went through has put the message of the
  exception into one new history entry of the active database, and the caller gets the
  exception with that state.
\<close>

theorem failure_recording:
  "(fst (evaluate env r s) = Inl e \<longrightarrow> snd (evaluate env r s) = s) \<and>
   (fst (eval_filter env r' s) = Inl e \<longrightarrow> execute env q r' flt s = (Inl e, s)) \<and>
   (active s = Some c \<and> databases s (c_name c) = Some d \<and>
    execute env q r' flt s = (Inl e, s') \<and> fst (eval_filter env r' s) = Inr f \<longrightarrow>
      (\<exists>d' entry. databases s' (c_name c) = Some d' \<and>
         history d' = history d @ [entry] \<and> error entry = Some (message e)))"
proof (intro conjI impI)
  assume "fst (evaluate env r s) = Inl e"
  then have "evaluate env r s = (Inl e, snd (evaluate env r s))" by (simp add: prod_eq_iff)
  then show "snd (evaluate env r s) = s" by (rule evaluate_Inl_unchanged)
next
  assume "fst (eval_filter env r' s) = Inl e"
  then have "eval_filter env r' s = (Inl e, snd (eval_filter env r' s))" by (simp add: prod_eq_iff)
  then show "execute env q r' flt s = (Inl e, s)" by (rule execute_eval_failed)
next
  assume a: "active s = Some c \<and> databases s (c_name c) = Some d \<and>
    execute env q r' flt s = (Inl e, s') \<and> fst (eval_filter env r' s) = Inr f"
  then have ef: "eval_filter env r' s = (Inr f, snd (eval_filter env r' s))"
    by (simp add: prod_eq_iff)
  from a eval_filter_Inr_keeps(2)[OF ef, of "c_name c" d] obtain d1
    where d1: "databases (snd (eval_filter env r' s)) (c_name c) = Some d1" "history d1 = history d"
    by blast
  from a execute_after_eval[OF ef _ d1(1), of q flt] d1(2)
  show "\<exists>d' entry. databases s' (c_name c) = Some d' \<and>
         history d' = history d @ [entry] \<and> error entry = Some (message e)"
    by (auto simp: failure_entry_def split: sum.splits prod.splits)
qed

theorem failure_recording_witness:
  "fst (evaluate (example_env\<lparr>fetch := \<lambda>url method body. Inr error_response\<rparr>)
     ''package conditions'' example_state) = Inl (Error ''bad rule'') \<and>
   snd (evaluate (example_env\<lparr>fetch := \<lambda>url method body. Inr error_response\<rparr>)
     ''package conditions'' example_state) = example_state \<and>
   fst (eval_filter (example_env\<lparr>fetch := \<lambda>url method body. Inr error_response\<rparr>)
     (Some ''package conditions'') example_state) = Inl (Error ''bad rule'') \<and>
   execute (example_env\<lparr>fetch := \<lambda>url method body. Inr error_response\<rparr>)
     ''SELECT * FROM products'' (Some ''package conditions'') True example_state =
     (Inl (Error ''bad rule''), example_state) \<and>
   active example_state = Some \<lparr>c_name = ''orders'', postgres = PGlite ''orders''\<rparr> \<and>
   databases example_state ''orders'' = Some example_database \<and>
   fst (eval_filter (example_env\<lparr>exec := rejecting_engine\<rparr>) None example_state) = Inr None \<and>
   fst (execute (example_env\<lparr>exec := rejecting_engine\<rparr>) ''SELECT * FROM products'' None False
     example_state) = Inl (Error ''syntax error at end of input'') \<and>
   (\<exists>d' entry.
      databases (snd (execute (example_env\<lparr>exec := rejecting_engine\<rparr>) ''SELECT * FROM products''
        None False example_state)) ''orders'' = Some d' \<and>
      history d' = [entry] \<and> error entry = Some ''syntax error at end of input'')"
proof -
  let ?c = "\<lparr>c_name = ''orders'', postgres = PGlite ''orders''\<rparr>"
  let ?E1 = "example_env\<lparr>fetch := \<lambda>url method body. Inr error_response\<rparr>"
  let ?E2 = "example_env\<lparr>exec := rejecting_engine\<rparr>"
  let ?bad = "execute ?E2 ''SELECT * FROM products'' None False example_state"
  have ev: "fst (evaluate ?E1 ''package conditions'' example_state) = Inl (Error ''bad rule'')"
    by (simp add: store_eval)
  have ef1: "fst (eval_filter ?E1 (Some ''package conditions'') example_state) =
      Inl (Error ''bad rule'')"
    by (simp add: store_eval)
  have a: "active example_state = Some ?c" by (simp add: example_state_def)
  have b: "databases example_state (c_name ?c) = Some example_database"
    by (simp add: example_state_def)
  have ef2: "fst (eval_filter ?E2 None example_state) = Inr None"
    by (simp add: eval_filter_def)
  have bad: "fst ?bad = Inl (Error ''syntax error at end of input'')"
    by (simp add: store_eval)
  then have bad': "?bad = (Inl (Error ''syntax error at end of input''), snd ?bad)"
    by (simp add: prod_eq_iff)
  have h: "history example_database = []" by (simp add: example_database_def)
  from failure_recording[where env = ?E1 and r = "''package conditions''" and s = example_state
      and e = "Error ''bad rule''" and r' = "Some ''package conditions''"
      and q = "''SELECT * FROM products''" and flt = True] ev ef1
  have 1: "snd (evaluate ?E1 ''package conditions'' example_state) = example_state"
    and 2: "execute ?E1 ''SELECT * FROM products'' (Some ''package conditions'') True example_state =
      (Inl (Error ''bad rule''), example_state)"
    by blast+
  from failure_recording[where env = ?E2 and s = example_state and r' = None
      and e = "Error ''syntax error at end of input''" and q = "''SELECT * FROM products''"
      and flt = False and c = ?c and d = example_database and s' = "snd ?bad" and f = None]
    a b bad' ef2 h
  have 3: "\<exists>d' entry. databases (snd ?bad) ''orders'' = Some d' \<and>
      history d' = [entry] \<and> error entry = Some ''syntax error at end of input''"
    by simp
  from ev ef1 a b ef2 bad 1 2 3 show ?thesis by simp
qed

text \<open>
  The service answers \<open>evaluate\<close> with an error body: the call rejects and the history of
  \<open>orders\<close> is as empty as before, when \<open>evaluate\<close> is called and when \<open>execute\<close> calls it.
\<close>

theorem failed_evaluate_unrecorded:
  "fst (evaluate (example_env\<lparr>fetch := \<lambda>url method body. Inr error_response\<rparr>)
     ''package conditions'' example_state) = Inl (Error ''bad rule'') \<and>
   map_option history (databases (snd (evaluate (example_env\<lparr>fetch := \<lambda>url method body. Inr error_response\<rparr>)
     ''package conditions'' example_state)) ''orders'') = Some [] \<and>
   fst (execute (example_env\<lparr>fetch := \<lambda>url method body. Inr error_response\<rparr>)
     ''SELECT * FROM products'' (Some ''package conditions'') True example_state) =
     Inl (Error ''bad rule'') \<and>
   map_option history (databases (snd (execute (example_env\<lparr>fetch := \<lambda>url method body. Inr error_response\<rparr>)
     ''SELECT * FROM products'' (Some ''package conditions'') True example_state)) ''orders'') = Some []"
  by (simp add: store_eval)

text \<open>
  C3, as the code has it. The status is read before the body: under a success status, a
  body that is an object with a \<open>code\<close> member makes \<open>evaluate\<close> reject with
  \<open>new Error(body.message)\<close>, whose message is the member itself when that is a string, and
  the state stays as it was, \<open>rego\<close>, \<open>evaluated\<close> and \<open>filter\<close> of the active database
  with it.
\<close>

theorem evaluate_error_body:
  assumes "active s = Some c" and "databases s (c_name c) = Some db"
    and "fetch env ''/v0/preview/conditions'' ''POST''
           (stringify [(''input'', input db), (''data'', data db),
              (''rego_modules'', Some (JObj [(''main.rego'', JStr r)]))]) = Inr resp"
    and "ok resp" and "resp_json resp = Inr (JObj members)"
    and "''code'' \<in> fst ` set members"
  shows "evaluate env r s = (Inl (Error (error_text env (map_of members ''message''))), s) \<and>
         (map_of members ''message'' = Some (JStr m) \<longrightarrow> evaluate env r s = (Inl (Error m), s))"
proof -
  from assms(6) have "map_of members ''code'' \<noteq> None"
    by (simp add: map_of_eq_None_iff)
  with assms(1-5) have "evaluate env r s =
      (Inl (Error (error_text env (map_of members ''message''))), s)"
    by (auto simp: evaluate_def preview_request_def lookup_own read_input_data_def)
  then show ?thesis by (auto simp: error_text_def)
qed

theorem evaluate_error_body_witness:
  "active example_state = Some \<lparr>c_name = ''orders'', postgres = PGlite ''orders''\<rparr> \<and>
   databases example_state ''orders'' = Some example_database \<and>
   ok error_response \<and>
   resp_json error_response = Inr (JObj [(''code'', JStr ''invalid''), (''message'', JStr ''bad rule'')]) \<and>
   ''code'' \<in> fst ` set [(''code'', JStr ''invalid''), (''message'', JStr ''bad rule'')] \<and>
   map_of [(''code'', JStr ''invalid''), (''message'', JStr ''bad rule'')] ''message'' =
     Some (JStr ''bad rule'') \<and>
   fetch (example_env\<lparr>fetch := \<lambda>url method body. Inr error_response\<rparr>)
     ''/v0/preview/conditions'' ''POST''
     (stringify [(''input'', input example_database), (''data'', data example_database),
        (''rego_modules'', Some (JObj [(''main.rego'', JStr ''package conditions'')]))]) =
     Inr error_response \<and>
   evaluate (example_env\<lparr>fetch := \<lambda>url method body. Inr error_response\<rparr>) ''package conditions''
     example_state = (Inl (Error ''bad rule''), example_state)"
proof -
  let ?c = "\<lparr>c_name = ''orders'', postgres = PGlite ''orders''\<rparr>"
  let ?E = "example_env\<lparr>fetch := \<lambda>url method body. Inr error_response\<rparr>"
  let ?members = "[(''code'', JStr ''invalid''), (''message'', JStr ''bad rule'')]"
  have a: "active example_state = Some ?c" by (simp add: example_state_def)
  have b: "databases example_state (c_name ?c) = Some example_database"
    by (simp add: example_state_def)
  have f: "fetch ?E ''/v0/preview/conditions'' ''POST''
           (stringify [(''input'', input example_database), (''data'', data example_database),
              (''rego_modules'', Some (JObj [(''main.rego'', JStr ''package conditions'')]))]) =
           Inr error_response"
    by (simp add: example_env_def)
  have o: "ok error_response" by (simp add: error_response_def)
  have j: "resp_json error_response = Inr (JObj ?members)" by (simp add: error_response_def)
  have k: "''code'' \<in> fst ` set ?members" by simp
  have m: "map_of ?members ''message'' = Some (JStr ''bad rule'')" by simp
  from evaluate_error_body[OF a b f o j k, of "''bad rule''"] m
  have "evaluate ?E ''package conditions'' example_state = (Inl (Error ''bad rule''), example_state)"
    by blast
  with a b f o j k m show ?thesis by simp
qed

text \<open>
  The same error body under status 400: the call rejects with the status text, and the
  \<open>message\<close> of the body is not read.
\<close>

theorem status_read_before_body:
  "resp_json bad_request_response =
     Inr (JObj [(''code'', JStr ''invalid''), (''message'', JStr ''bad rule'')]) \<and>
   evaluate (example_env\<lparr>fetch := \<lambda>url method body. Inr bad_request_response\<rparr>)
     ''package conditions'' example_state = (Inl (Error ''EOPA: Bad Request''), example_state)"
  by (simp add: store_eval)

text \<open>
  C4. With no active session, \<open>evaluate\<close>, \<open>execute\<close> and \<open>reload\<close> each reject, and the
  state stays as it was. The store has no error class of its own for this: what the caller
  gets is the TypeError of reading a member of the absent connection, on every path,
  the \<open>catch\<close> block of \<open>execute\<close> included.
\<close>

theorem no_active_session:
  assumes "active s = None"
  shows "(\<exists>m. evaluate env r s = (Inl (TypeError m), s)) \<and>
         (\<exists>m. execute env q r' flt s = (Inl (TypeError m), s)) \<and>
         (\<exists>m. reload env s = (Inl (TypeError m), s))"
proof (intro conjI)
  from assms show ev: "\<exists>m. evaluate env r s = (Inl (TypeError m), s)" for r
    by (simp add: evaluate_def)
  from assms show "\<exists>m. reload env s = (Inl (TypeError m), s)"
    by (simp add: reload_def)
  have cb: "\<exists>m. catch_block env None q e s = (Inl (TypeError m), s)" for e
    by (simp add: catch_block_def set_store_def record_failure_def and_then_def step_def
        assign_active_def)
  have rs: "\<exists>e. run_statement env None q flt f = Inl e" for f
    by (auto simp: run_statement_def split: sum.splits)
  show "\<exists>m. execute env q r' flt s = (Inl (TypeError m), s)"
  proof (cases "eval_filter env r' s")
    case (Pair o1 s1)
    show ?thesis
    proof (cases o1)
      case (Inl e)
      with Pair have "execute env q r' flt s = (Inl e, s)" by (simp add: execute_eval_failed)
      moreover from Pair Inl assms have "\<exists>m. e = TypeError m"
        by (auto simp: eval_filter_def evaluate_def split: option.splits if_splits)
      ultimately show ?thesis by auto
    next
      case (Inr f)
      with Pair assms have "s1 = s"
        by (auto simp: eval_filter_def evaluate_def split: option.splits if_splits)
      moreover obtain e where "run_statement env None q flt f = Inl e" using rs by blast
      ultimately show ?thesis using Pair Inr assms cb[of e]
        by (simp add: execute_def)
    qed
  qed
qed

theorem no_active_session_witness:
  "active initial_state = None \<and>
   (\<exists>m. evaluate example_env ''package conditions'' initial_state = (Inl (TypeError m), initial_state)) \<and>
   (\<exists>m. execute example_env ''SELECT 1'' (Some ''package conditions'') True initial_state =
      (Inl (TypeError m), initial_state)) \<and>
   (\<exists>m. execute example_env ''SELECT 1'' None False initial_state =
      (Inl (TypeError m), initial_state)) \<and>
   (\<exists>m. reload example_env initial_state = (Inl (TypeError m), initial_state))"
proof -
  have a: "active initial_state = None" by (simp add: initial_state_def)
  from no_active_session[OF a, of example_env "''package conditions''" "''SELECT 1''"
      "Some ''package conditions''" True]
    no_active_session[OF a, of example_env "''package conditions''" "''SELECT 1''" None False]
    a
  show ?thesis by blast
qed

lemma error_text_fetch: "error_text (env\<lparr>fetch := f\<rparr>) v = error_text env v"
  by (simp add: error_text_def split: option.splits json.splits)

text \<open>
  C5, as the code has it. With an active session whose database is in the registry,
  \<open>evaluate\<close> sends one request: \<open>POST /v0/preview/conditions\<close> with the JSON text of
  \<open>{input, data, rego_modules: {"main.rego": policyText}}\<close>, \<open>input\<close> and \<open>data\<close> those of
  the active database. The call rejects with what this request rejects with, and nothing
  else of the network has a part in its outcome.
\<close>

theorem evaluate_request:
  assumes "active s = Some c" and "databases s (c_name c) = Some db"
    and "body = stringify [(''input'', input db), (''data'', data db),
                  (''rego_modules'', Some (JObj [(''main.rego'', JStr policyText)]))]"
  shows "(fetch env ''/v0/preview/conditions'' ''POST'' body = Inl e \<longrightarrow>
            evaluate env policyText s = (Inl e, s)) \<and>
         (f ''/v0/preview/conditions'' ''POST'' body =
            fetch env ''/v0/preview/conditions'' ''POST'' body \<longrightarrow>
            evaluate (env\<lparr>fetch := f\<rparr>) policyText s = evaluate env policyText s)"
  using assms
  by (auto simp: evaluate_def preview_request_def error_text_fetch lookup_own
      read_input_data_def split: sum.splits bool.splits)

theorem evaluate_request_witness:
  "active example_state = Some \<lparr>c_name = ''orders'', postgres = PGlite ''orders''\<rparr> \<and>
   databases example_state ''orders'' = Some example_database \<and>
   stringify [(''input'', input example_database), (''data'', data example_database),
      (''rego_modules'', Some (JObj [(''main.rego'', JStr ''package conditions'')]))] =
     JObj [(''input'', JObj [(''user'', JStr ''Emma Clark''), (''budget'', JStr ''low'')]),
           (''rego_modules'', JObj [(''main.rego'', JStr ''package conditions'')])] \<and>
   evaluate (example_env\<lparr>fetch := \<lambda>url method body.
       if url = ''/v0/preview/conditions'' \<and> method = ''POST'' \<and>
          body = JObj [(''input'', JObj [(''user'', JStr ''Emma Clark''), (''budget'', JStr ''low'')]),
                       (''rego_modules'', JObj [(''main.rego'', JStr ''package conditions'')])]
       then Inl (Other ''TypeError'' ''Failed to fetch'') else Inr filter_response\<rparr>)
     ''package conditions'' example_state = (Inl (Other ''TypeError'' ''Failed to fetch''), example_state) \<and>
   evaluate (example_env\<lparr>fetch := \<lambda>url method body.
       if url = ''/v0/preview/conditions'' \<and> method = ''POST'' \<and>
          body = JObj [(''input'', JObj [(''user'', JStr ''Emma Clark''), (''budget'', JStr ''low'')]),
                       (''rego_modules'', JObj [(''main.rego'', JStr ''package conditions'')])]
       then Inr filter_response else Inr bad_request_response\<rparr>)
     ''package conditions'' example_state =
   evaluate example_env ''package conditions'' example_state"
proof -
  let ?c = "\<lparr>c_name = ''orders'', postgres = PGlite ''orders''\<rparr>"
  let ?body = "JObj [(''input'', JObj [(''user'', JStr ''Emma Clark''), (''budget'', JStr ''low'')]),
           (''rego_modules'', JObj [(''main.rego'', JStr ''package conditions'')])]"
  let ?f = "\<lambda>url method body.
       if url = ''/v0/preview/conditions'' \<and> method = ''POST'' \<and> body = ?body
       then Inl (Other ''TypeError'' ''Failed to fetch'') else Inr filter_response"
  let ?g = "\<lambda>url method body.
       if url = ''/v0/preview/conditions'' \<and> method = ''POST'' \<and> body = ?body
       then Inr filter_response else Inr bad_request_response"
  have a: "active example_state = Some ?c" by (simp add: example_state_def)
  have b: "databases example_state (c_name ?c) = Some example_database"
    by (simp add: example_state_def)
  have c: "?body = stringify [(''input'', input example_database), (''data'', data example_database),
      (''rego_modules'', Some (JObj [(''main.rego'', JStr ''package conditions'')]))]"
    by (simp add: stringify_def List.map_filter_def example_database_def)
  have d: "fetch (example_env\<lparr>fetch := ?f\<rparr>) ''/v0/preview/conditions'' ''POST'' ?body =
      Inl (Other ''TypeError'' ''Failed to fetch'')"
    by simp
  have g: "?g ''/v0/preview/conditions'' ''POST'' ?body =
      fetch example_env ''/v0/preview/conditions'' ''POST'' ?body"
    by (simp add: example_env_def)
  from evaluate_request[OF a b c, where env = "example_env\<lparr>fetch := ?f\<rparr>"
      and e = "Other ''TypeError'' ''Failed to fetch''"] d
  have 1: "evaluate (example_env\<lparr>fetch := ?f\<rparr>) ''package conditions'' example_state =
      (Inl (Other ''TypeError'' ''Failed to fetch''), example_state)"
    by blast
  from evaluate_request[OF a b c, where env = example_env and f = ?g] g
  have 2: "evaluate (example_env\<lparr>fetch := ?g\<rparr>) ''package conditions'' example_state =
      evaluate example_env ''package conditions'' example_state"
    by blast
  from a b c 1 2 show ?thesis by simp
qed

text \<open>
  A service that answers with the request it got shows the request: the policy text is
  under \<open>rego_modules\<close> and \<open>main.rego\<close>, and the body has no \<open>policy_modules\<close>.
\<close>

theorem request_names_rego_modules:
  "fst (evaluate (example_env\<lparr>fetch := echo_fetch\<rparr>) ''package conditions''
     (example_state\<lparr>databases := [''orders'' \<mapsto> example_database\<lparr>data := Some (JObj [])\<rparr>]\<rparr>)) =
   Inr (JObj
     [(''url'', JStr ''/v0/preview/conditions''),
      (''method'', JStr ''POST''),
      (''body'', JObj
         [(''input'', JObj [(''user'', JStr ''Emma Clark''), (''budget'', JStr ''low'')]),
          (''data'', JObj []),
          (''rego_modules'', JObj [(''main.rego'', JStr ''package conditions'')])])]) \<and>
   fst (evaluate (example_env\<lparr>fetch := echo_fetch\<rparr>) ''package conditions''
     (example_state\<lparr>databases := [''orders'' \<mapsto> example_database\<lparr>data := Some (JObj [])\<rparr>]\<rparr>)) \<noteq>
   Inr (JObj
     [(''url'', JStr ''/v0/preview/conditions''),
      (''method'', JStr ''POST''),
      (''body'', JObj
         [(''input'', JObj [(''user'', JStr ''Emma Clark''), (''budget'', JStr ''low'')]),
          (''data'', JObj []),
          (''policy_modules'', JObj [(''main'', JStr ''package conditions'')])])])"
  by (simp add: store_eval)

text \<open>
  C8. With an active session whose database is in the registry, a response under a
  success status whose body parses and has no \<open>code\<close> member makes \<open>evaluate\<close> resolve with
  the whole body, and writes on the active database, and on nothing else, \<open>rego\<close> the
  policy text, \<open>evaluated\<close> the \<open>result\<close> member of the body and \<open>filter\<close> what
  \<open>result.query\<close> yields. That is the \<open>query\<close> member of the \<open>result\<close>, absent when it
  has none, as long as no call has written a \<open>query\<close> onto \<open>Object.prototype\<close>; after such a
  call a \<open>result\<close> without a \<open>query\<close> of its own yields the one it inherits.
\<close>

theorem evaluate_success:
  assumes "active s = Some c" and "databases s (c_name c) = Some db"
    and "fetch env ''/v0/preview/conditions'' ''POST''
           (stringify [(''input'', input db), (''data'', data db),
              (''rego_modules'', Some (JObj [(''main.rego'', JStr policyText)]))]) = Inr resp"
    and "ok resp" and "resp_json resp = Inr body" and "code_in body = Inr False"
  shows "evaluate env policyText s =
           (Inr body,
            s\<lparr>databases := (databases s)(c_name c \<mapsto>
                 db\<lparr>rego := Some policyText,
                    evaluated := field ''result'' (Some body),
                    filter' := query_of (prototype s) (field ''result'' (Some body))\<rparr>)\<rparr>) \<and>
         (w_query (prototype s) = None \<longrightarrow>
            query_of (prototype s) (field ''result'' (Some body)) =
              field ''query'' (field ''result'' (Some body)))"
proof
  from assms show "evaluate env policyText s =
           (Inr body,
            s\<lparr>databases := (databases s)(c_name c \<mapsto>
                 db\<lparr>rego := Some policyText,
                    evaluated := field ''result'' (Some body),
                    filter' := query_of (prototype s) (field ''result'' (Some body))\<rparr>)\<rparr>)"
    by (simp add: evaluate_def preview_request_def set_store_step assign_members_own
        lookup_own read_input_data_def)
  show "w_query (prototype s) = None \<longrightarrow>
            query_of (prototype s) (field ''result'' (Some body)) =
              field ''query'' (field ''result'' (Some body))"
    by (cases "field ''result'' (Some body)")
      (auto simp: query_of_def split: json.splits option.splits)
qed

theorem evaluate_success_witness:
  "active example_state = Some \<lparr>c_name = ''orders'', postgres = PGlite ''orders''\<rparr> \<and>
   databases example_state ''orders'' = Some example_database \<and>
   ok filter_response \<and>
   resp_json filter_response =
     Inr (JObj [(''result'', JObj [(''query'', JStr ''WHERE products.price <= 500'')])]) \<and>
   code_in (JObj [(''result'', JObj [(''query'', JStr ''WHERE products.price <= 500'')])]) = Inr False \<and>
   fetch example_env ''/v0/preview/conditions'' ''POST''
     (stringify [(''input'', input example_database), (''data'', data example_database),
        (''rego_modules'', Some (JObj [(''main.rego'', JStr ''package conditions'')]))]) =
     Inr filter_response \<and>
   evaluate example_env ''package conditions'' example_state =
     (Inr (JObj [(''result'', JObj [(''query'', JStr ''WHERE products.price <= 500'')])]),
      example_state\<lparr>databases := [''orders'' \<mapsto>
        example_database\<lparr>rego := Some ''package conditions'',
          evaluated := Some (JObj [(''query'', JStr ''WHERE products.price <= 500'')]),
          filter' := Some (JStr ''WHERE products.price <= 500'')\<rparr>]\<rparr>) \<and>
   evaluate (example_env\<lparr>fetch := \<lambda>url method body.
        Inr \<lparr>ok = True, statusText = ''OK'', resp_json = Inr (JObj [(''result'', JObj [])])\<rparr>\<rparr>)
     ''package conditions'' example_state =
     (Inr (JObj [(''result'', JObj [])]),
      example_state\<lparr>databases := [''orders'' \<mapsto>
        example_database\<lparr>rego := Some ''package conditions'',
          evaluated := Some (JObj []),
          filter' := None\<rparr>]\<rparr>) \<and>
   w_query (prototype example_state) = None \<and>
   evaluate (example_env\<lparr>fetch := \<lambda>url method body.
        Inr \<lparr>ok = True, statusText = ''OK'', resp_json = Inr (JObj [(''result'', JObj [])])\<rparr>\<rparr>)
     ''package conditions'' (example_state\<lparr>prototype := no_writes\<lparr>w_query := Some ''SELECT 1''\<rparr>\<rparr>) =
     (Inr (JObj [(''result'', JObj [])]),
      example_state\<lparr>prototype := no_writes\<lparr>w_query := Some ''SELECT 1''\<rparr>,
        databases := [''orders'' \<mapsto>
          example_database\<lparr>rego := Some ''package conditions'',
            evaluated := Some (JObj []),
            filter' := Some (JStr ''SELECT 1'')\<rparr>]\<rparr>)"
proof -
  let ?c = "\<lparr>c_name = ''orders'', postgres = PGlite ''orders''\<rparr>"
  let ?body = "JObj [(''result'', JObj [(''query'', JStr ''WHERE products.price <= 500'')])]"
  let ?resp' = "\<lparr>ok = True, statusText = ''OK'', resp_json = Inr (JObj [(''result'', JObj [])])\<rparr>"
  let ?E' = "example_env\<lparr>fetch := \<lambda>url method body. Inr ?resp'\<rparr>"
  have a: "active example_state = Some ?c" by (simp add: example_state_def)
  have b: "databases example_state (c_name ?c) = Some example_database"
    by (simp add: example_state_def)
  have f: "fetch example_env ''/v0/preview/conditions'' ''POST''
           (stringify [(''input'', input example_database), (''data'', data example_database),
              (''rego_modules'', Some (JObj [(''main.rego'', JStr ''package conditions'')]))]) =
           Inr filter_response"
    by (simp add: example_env_def)
  have f': "fetch ?E' ''/v0/preview/conditions'' ''POST''
           (stringify [(''input'', input example_database), (''data'', data example_database),
              (''rego_modules'', Some (JObj [(''main.rego'', JStr ''package conditions'')]))]) =
           Inr ?resp'"
    by simp
  have o: "ok filter_response" by (simp add: filter_response_def)
  have j: "resp_json filter_response = Inr ?body" by (simp add: filter_response_def)
  have k: "code_in ?body = Inr False" by simp
  have d: "databases example_state = [''orders'' \<mapsto> example_database]"
    by (simp add: example_state_def)
  have q: "w_query (prototype example_state) = None"
    by (simp add: example_state_def no_writes_def)
  let ?S = "example_state\<lparr>prototype := no_writes\<lparr>w_query := Some ''SELECT 1''\<rparr>\<rparr>"
  have a': "active ?S = Some ?c" by (simp add: example_state_def)
  have b': "databases ?S (c_name ?c) = Some example_database"
    by (simp add: example_state_def)
  from evaluate_success[OF a b f o j k] d q
  have 1: "evaluate example_env ''package conditions'' example_state =
     (Inr ?body,
      example_state\<lparr>databases := [''orders'' \<mapsto>
        example_database\<lparr>rego := Some ''package conditions'',
          evaluated := Some (JObj [(''query'', JStr ''WHERE products.price <= 500'')]),
          filter' := Some (JStr ''WHERE products.price <= 500'')\<rparr>]\<rparr>)"
    by simp
  from evaluate_success[OF a b f', of "JObj [(''result'', JObj [])]"] d q
  have 2: "evaluate ?E' ''package conditions'' example_state =
     (Inr (JObj [(''result'', JObj [])]),
      example_state\<lparr>databases := [''orders'' \<mapsto>
        example_database\<lparr>rego := Some ''package conditions'',
          evaluated := Some (JObj []),
          filter' := None\<rparr>]\<rparr>)"
    by simp
  from evaluate_success[OF a' b' f', of "JObj [(''result'', JObj [])]"] d
  have 3: "evaluate ?E' ''package conditions'' ?S =
     (Inr (JObj [(''result'', JObj [])]),
      example_state\<lparr>prototype := no_writes\<lparr>w_query := Some ''SELECT 1''\<rparr>,
        databases := [''orders'' \<mapsto>
          example_database\<lparr>rego := Some ''package conditions'',
            evaluated := Some (JObj []),
            filter' := Some (JStr ''SELECT 1'')\<rparr>]\<rparr>)"
    by (simp add: query_of_def)
  from a b f o j k q 1 2 3 show ?thesis by simp
qed

text \<open>
  C9. The invariant holds in the initial state and \<open>connect("constructor")\<close> breaks it in
  one call. No database has that name, but \<open>state.databases["constructor"]\<close> is the
  function every object inherits: the two assignments of the recipe land on the function,
  the recipe does not throw, and the store commits \<open>active\<close> with a name under which
  \<open>databases\<close> has no entry.
\<close>

theorem connect_inherited_name:
  "active_known initial_state \<and>
   databases initial_state ''constructor'' = None \<and>
   fst (connect example_env ''constructor'' initial_state) = Inr () \<and>
   active (snd (connect example_env ''constructor'' initial_state)) =
     Some \<lparr>c_name = ''constructor'', postgres = PGlite ''constructor''\<rparr> \<and>
   databases (snd (connect example_env ''constructor'' initial_state)) ''constructor'' = None \<and>
   \<not> active_known (snd (connect example_env ''constructor'' initial_state)) \<and>
   \<not> active_known (run [(example_env, Connect ''constructor'')] initial_state)"
  by (simp add: active_known_def connect_def store_eval)

text \<open>
  C10. \<open>update("constructor", ...)\<close> on a registry without a database of that name does
  not fail: the recipe assigns \<open>description\<close> and \<open>createdAt\<close> to the function that every
  object inherits under this name, and the call resolves. The registry is as it was. A
  name that nothing is inherited under makes the first assignment throw.
\<close>

theorem update_inherited_name:
  "databases initial_state ''constructor'' = None \<and>
   update example_env ''constructor'' (Some ''orders of the shop'') initial_state =
     (Inr (), initial_state) \<and>
   update example_env ''shop'' (Some ''orders of the shop'') initial_state =
     (Inl (TypeError ''cannot access a member of undefined''), initial_state)"
  by (simp add: update_def store_eval)


end
